theory Spec2Isabelle
  imports Complex_Main "HOL-Library.Log_Nat"
begin

section \<open>The confetti engine of src/scripts/confetti.js\<close>

text \<open>
  The module keeps its state in the constant object \<open>CONFIG\<close> and in the module variables
  \<open>canvas\<close>, \<open>ctx\<close>, \<open>particles\<close>, \<open>animationId\<close> and \<open>isAnimating\<close>, and it talks to the
  browser: the document, the window, the canvas bitmap, \<open>requestAnimationFrame\<close>,
  \<open>setTimeout\<close>, \<open>matchMedia\<close>, \<open>Math.random\<close> and the console. The model passes one record,
  \<open>world\<close>, that holds the module variables and the part of the browser the module reads
  and writes.

  JavaScript numbers are binary64 floating-point values. The model computes with them as
  real numbers: rounding, \<open>NaN\<close> and the infinities are left out. The one place of the
  module where rounding could decide a result, the repeated \<open>life -= 0.01\<close>, is modelled
  a second time with binary64 rounding written out (\<open>life_binary64\<close> below).
\<close>

subsection \<open>Configuration\<close>

record num_range =
  min_v :: real
  max_v :: real

record config =
  particleCount :: real
  duration :: real
  colors :: "string list"
  shapes :: "string list"
  gravity :: real
  windResistance :: real
  initialVelocityRange :: num_range
  angleRange :: num_range

definition CONFIG :: config where
  "CONFIG =
     \<lparr> particleCount = 150,
       duration = 4000,
       colors = [''#d4a574'', ''#e8d4b8'', ''#1e3a5f'', ''#4caf50'', ''#2196f3''],
       shapes = [''circle'', ''square''],
       gravity = 1 / 2,
       windResistance = 98 / 100,
       initialVelocityRange = \<lparr> min_v = - 15, max_v = - 5 \<rparr>,
       angleRange = \<lparr> min_v = - pi / 4, max_v = - pi * 3 / 4 \<rparr> \<rparr>"

text \<open>
  The argument of \<open>updateConfig\<close>: an object that names some of the fields of \<open>CONFIG\<close>.
  \<open>None\<close> is a field the object does not have.
\<close>

record config_patch =
  new_particleCount :: "real option"
  new_duration :: "real option"
  new_colors :: "string list option"
  new_shapes :: "string list option"
  new_gravity :: "real option"
  new_windResistance :: "real option"
  new_initialVelocityRange :: "num_range option"
  new_angleRange :: "num_range option"

definition no_patch :: config_patch where
  "no_patch =
     \<lparr> new_particleCount = None, new_duration = None, new_colors = None, new_shapes = None,
       new_gravity = None, new_windResistance = None, new_initialVelocityRange = None,
       new_angleRange = None \<rparr>"

definition assign_field :: "'a \<Rightarrow> 'a option \<Rightarrow> 'a" where
  "assign_field old new = (case new of None \<Rightarrow> old | Some v \<Rightarrow> v)"

text \<open>\<open>Object.assign(CONFIG, newConfig)\<close>: every own field of the source overwrites the target's.\<close>

definition Object_assign :: "config \<Rightarrow> config_patch \<Rightarrow> config" where
  "Object_assign cfg n =
     \<lparr> particleCount = assign_field (particleCount cfg) (new_particleCount n),
       duration = assign_field (duration cfg) (new_duration n),
       colors = assign_field (colors cfg) (new_colors n),
       shapes = assign_field (shapes cfg) (new_shapes n),
       gravity = assign_field (gravity cfg) (new_gravity n),
       windResistance = assign_field (windResistance cfg) (new_windResistance n),
       initialVelocityRange = assign_field (initialVelocityRange cfg) (new_initialVelocityRange n),
       angleRange = assign_field (angleRange cfg) (new_angleRange n) \<rparr>"

subsection \<open>Particles\<close>

text \<open>
  The fields \<open>x\<close>, \<open>y\<close> and \<open>size\<close> of the class are \<open>px\<close>, \<open>py\<close> and \<open>psize\<close> here. An array
  read out of range gives \<open>undefined\<close>, which is \<open>None\<close>.
\<close>

record particle =
  px :: real
  py :: real
  psize :: real
  color :: "string option"
  shape :: "string option"
  vx :: real
  vy :: real
  rotation :: real
  rotationSpeed :: real
  opacity :: real
  life :: real

definition js_index :: "'a list \<Rightarrow> int \<Rightarrow> 'a option" where
  "js_index xs i = (if 0 \<le> i \<and> i < int (length xs) then Some (xs ! nat i) else None)"

text \<open>
  The constructor calls \<open>Math.random\<close> seven times; \<open>rnd k\<close> is the value of the call
  number \<open>k\<close> (size, colour, shape, angle, velocity, rotation, rotation speed).
\<close>

definition Particle_constructor :: "config \<Rightarrow> (nat \<Rightarrow> real) \<Rightarrow> real \<Rightarrow> real \<Rightarrow> particle" where
  "Particle_constructor cfg rnd x y =
     (let angle = rnd 3 * (max_v (angleRange cfg) - min_v (angleRange cfg)) + min_v (angleRange cfg);
          velocity = rnd 4 * (max_v (initialVelocityRange cfg) - min_v (initialVelocityRange cfg))
                       + min_v (initialVelocityRange cfg)
      in \<lparr> px = x,
           py = y,
           psize = rnd 0 * 8 + 4,
           color = js_index (colors cfg) \<lfloor>rnd 1 * real (length (colors cfg))\<rfloor>,
           shape = js_index (shapes cfg) \<lfloor>rnd 2 * real (length (shapes cfg))\<rfloor>,
           vx = cos angle * velocity,
           vy = sin angle * velocity,
           rotation = rnd 5 * pi * 2,
           rotationSpeed = (rnd 6 - 1 / 2) * (2 / 10),
           opacity = 1,
           life = 1 \<rparr>)"

text \<open>\<open>update()\<close>, one assignment after the other, each reading what the earlier ones wrote.\<close>

definition update :: "config \<Rightarrow> particle \<Rightarrow> particle" where
  "update cfg p =
     (let p1 = p\<lparr>vy := vy p + gravity cfg\<rparr>;
          p2 = p1\<lparr>vx := vx p1 * windResistance cfg\<rparr>;
          p3 = p2\<lparr>vy := vy p2 * windResistance cfg\<rparr>;
          p4 = p3\<lparr>px := px p3 + vx p3\<rparr>;
          p5 = p4\<lparr>py := py p4 + vy p4\<rparr>;
          p6 = p5\<lparr>rotation := rotation p5 + rotationSpeed p5\<rparr>;
          p7 = p6\<lparr>life := life p6 - 1 / 100\<rparr>
      in p7\<lparr>opacity := max 0 (life p7)\<rparr>)"

text \<open>\<open>isAlive()\<close>; its argument \<open>h\<close> is \<open>canvas.height\<close>.\<close>

definition isAlive :: "real \<Rightarrow> particle \<Rightarrow> bool" where
  "isAlive h p = (0 < life p \<and> py p < h + 50)"

text \<open>
  What \<open>draw\<close> leaves on the canvas: one filled shape. Its arguments are the alpha, the
  translation, the rotation and the fill style set before the fill, and the radius of the
  disk or the side of the square.
\<close>

datatype painted =
    FilledArc real real real real "string option" real
  | FilledRect real real real real "string option" real

definition paint :: "particle \<Rightarrow> painted" where
  "paint p =
     (if shape p = Some ''circle''
      then FilledArc (opacity p) (px p) (py p) (rotation p) (color p) (psize p / 2)
      else FilledRect (opacity p) (px p) (py p) (rotation p) (color p) (psize p))"

definition draw :: "particle \<Rightarrow> painted list \<Rightarrow> painted list" where
  "draw p bitmap = bitmap @ [paint p]"

subsection \<open>The physics step as five stages\<close>

text \<open>
  The five stages of the step in the words of the specification, each a function of its
  own, to be compared with \<open>update\<close>.
\<close>

definition stage_gravity :: "config \<Rightarrow> particle \<Rightarrow> particle" where
  "stage_gravity cfg p = p\<lparr>vy := vy p + gravity cfg\<rparr>"

definition stage_resistance :: "config \<Rightarrow> particle \<Rightarrow> particle" where
  "stage_resistance cfg p =
     p\<lparr>vx := vx p * windResistance cfg, vy := vy p * windResistance cfg\<rparr>"

definition stage_position :: "particle \<Rightarrow> particle" where
  "stage_position p = p\<lparr>px := px p + vx p, py := py p + vy p\<rparr>"

definition stage_rotation :: "particle \<Rightarrow> particle" where
  "stage_rotation p = p\<lparr>rotation := rotation p + rotationSpeed p\<rparr>"

definition stage_decay :: "particle \<Rightarrow> particle" where
  "stage_decay p = p\<lparr>life := life p - 1 / 100, opacity := max 0 (life p - 1 / 100)\<rparr>"

text \<open>\<open>update()\<close> called \<open>k\<close> times on the same particle.\<close>

fun update_n :: "config \<Rightarrow> nat \<Rightarrow> particle \<Rightarrow> particle" where
  "update_n cfg 0 p = p"
| "update_n cfg (Suc k) p = update cfg (update_n cfg k p)"

subsection \<open>The life counter with binary64 rounding\<close>

text \<open>
  A finite binary64 value is \<open>m * 2 ^ e\<close> for integers \<open>m\<close> and \<open>e\<close>, with at most 53 bits
  in \<open>m\<close>. A subtraction computes the exact difference and rounds it to 53 bits, to
  nearest and ties to even. The range of the exponent is not modelled: the values of the
  counter stay far from overflow and underflow. The literal \<open>0.01\<close> is the binary64 value
  nearest to one hundredth, and \<open>1\<close> is exact.
\<close>

type_synonym binary64 = "int \<times> int"

definition pow2 :: "int \<Rightarrow> rat" where
  "pow2 e = (if 0 \<le> e then 2 ^ nat e else 1 / 2 ^ nat (- e))"

definition value_binary64 :: "binary64 \<Rightarrow> rat" where
  "value_binary64 f = of_int (fst f) * pow2 (snd f)"

definition round_half_even :: "int \<Rightarrow> nat \<Rightarrow> int" where
  "round_half_even m s =
     (let q = m div 2 ^ s; r = m mod 2 ^ s; half = 2 ^ (s - 1)
      in if r < half then q else if half < r then q + 1 else if even q then q else q + 1)"

definition round_binary64 :: "binary64 \<Rightarrow> binary64" where
  "round_binary64 f =
     (let m = fst f; e = snd f; k = bitlen \<bar>m\<bar>
      in if k \<le> 53 then (m, e)
         else (sgn m * round_half_even \<bar>m\<bar> (nat (k - 53)), e + (k - 53)))"

definition sub_binary64 :: "binary64 \<Rightarrow> binary64 \<Rightarrow> binary64" where
  "sub_binary64 a b =
     (let e = min (snd a) (snd b)
      in round_binary64 (fst a * 2 ^ nat (snd a - e) - fst b * 2 ^ nat (snd b - e), e))"

definition hundredth :: binary64 where
  "hundredth = (5764607523034235, - 59)"

fun life_binary64 :: "nat \<Rightarrow> binary64" where
  "life_binary64 0 = (1, 0)"
| "life_binary64 (Suc k) = sub_binary64 (life_binary64 k) hundredth"

text \<open>The values of the counter from \<open>l\<close> on, \<open>n\<close> steps of them, as a list.\<close>

fun life_trace :: "nat \<Rightarrow> binary64 \<Rightarrow> binary64 list" where
  "life_trace 0 l = []"
| "life_trace (Suc n) l = l # life_trace n (sub_binary64 l hundredth)"

subsection \<open>The module variables and the browser\<close>

datatype js_error = TypeError

datatype canvas_handle = CanvasElement
datatype context2d = Context2D

text \<open>
  \<open>canvas\<close>, \<open>ctx\<close>, \<open>particles\<close>, \<open>animationId\<close> and \<open>isAnimating\<close> are the module variables;
  \<open>None\<close> is \<open>undefined\<close> or \<open>null\<close>. The page has at most one element with the id
  \<open>confetti-canvas\<close>: \<open>documentHasCanvas\<close> says whether \<open>getElementById\<close> finds it,
  \<open>context2dAvailable\<close> whether its \<open>getContext('2d')\<close> gives a context, \<open>canvas_width\<close> and
  \<open>canvas_height\<close> are its attributes and \<open>bitmap\<close> is what has been painted on it since
  it was last cleared. \<open>frameRequests\<close> are the handles of the pending
  \<open>requestAnimationFrame\<close> callbacks (each one is \<open>animate\<close>), \<open>frameCounter\<close> the last
  handle given out. \<open>timers\<close> are the times at which the pending \<open>setTimeout\<close> callbacks
  of \<open>triggerConfetti\<close> are due. \<open>rand\<close> is the sequence of values \<open>Math.random\<close> returns,
  \<open>randPos\<close> the number of values consumed.
\<close>

record world =
  config :: config
  canvas :: "canvas_handle option"
  ctx :: "context2d option"
  particles :: "particle list option"
  animationId :: "nat option"
  isAnimating :: "bool option"
  documentHasCanvas :: bool
  context2dAvailable :: bool
  canvas_width :: real
  canvas_height :: real
  bitmap :: "painted list"
  innerWidth :: real
  innerHeight :: real
  resizeListener :: bool
  reducedMotion :: bool
  frameRequests :: "nat list"
  frameCounter :: nat
  clock :: real
  timers :: "real list"
  console :: "string list"
  rand :: "nat \<Rightarrow> real"
  randPos :: nat

text \<open>The truth value of a module variable in a condition.\<close>

definition truthy_flag :: "bool option \<Rightarrow> bool" where
  "truthy_flag b = (b = Some True)"

definition console_write :: "string \<Rightarrow> world \<Rightarrow> world" where
  "console_write msg w = w\<lparr>console := console w @ [msg]\<rparr>"

definition requestAnimationFrame :: "world \<Rightarrow> nat \<times> world" where
  "requestAnimationFrame w =
     (let n = Suc (frameCounter w)
      in (n, w\<lparr>frameCounter := n, frameRequests := frameRequests w @ [n]\<rparr>))"

definition cancelAnimationFrame :: "nat \<Rightarrow> world \<Rightarrow> world" where
  "cancelAnimationFrame n w = w\<lparr>frameRequests := removeAll n (frameRequests w)\<rparr>"

definition setTimeout :: "real \<Rightarrow> world \<Rightarrow> world" where
  "setTimeout delay w = w\<lparr>timers := timers w @ [clock w + delay]\<rparr>"

text \<open>\<open>ctx.clearRect(0, 0, canvas.width, canvas.height)\<close>: the whole bitmap is cleared.\<close>

definition clearRect :: "world \<Rightarrow> world" where
  "clearRect w = w\<lparr>bitmap := []\<rparr>"

text \<open>Assigning the width or the height of a canvas also clears its bitmap.\<close>

definition resizeCanvas :: "world \<Rightarrow> world" where
  "resizeCanvas w =
     (if canvas w = None then w
      else w\<lparr>canvas_width := innerWidth w, canvas_height := innerHeight w, bitmap := []\<rparr>)"

definition initConfetti :: "world \<Rightarrow> world" where
  "initConfetti w =
     (if \<not> documentHasCanvas w
      then console_write ''Confetti canvas not found'' (w\<lparr>canvas := None\<rparr>)
      else
        let w1 = w\<lparr>canvas := Some CanvasElement\<rparr>;
            w2 = w1\<lparr>ctx := (if context2dAvailable w1 then Some Context2D else None)\<rparr>;
            w3 = w2\<lparr>particles := Some [], isAnimating := Some False\<rparr>;
            w4 = resizeCanvas w3
        in w4\<lparr>resizeListener := True\<rparr>)"

text \<open>
  \<open>createParticles\<close>: the loop runs for \<open>i = 0, 1, ...\<close> while \<open>i < count\<close>, that is
  \<open>\<lceil>count\<rceil>\<close> times for a positive \<open>count\<close> and not at all otherwise. \<open>spawn\<close> is the list
  of the particles it constructs; the particle number \<open>i\<close> reads the random values from
  position \<open>pos + 7 * i\<close> on. \<open>particles.push\<close> throws when \<open>particles\<close> is \<open>undefined\<close>.
\<close>

fun spawn :: "config \<Rightarrow> (nat \<Rightarrow> real) \<Rightarrow> nat \<Rightarrow> real \<Rightarrow> real \<Rightarrow> nat \<Rightarrow> particle list" where
  "spawn cfg rnd pos x y 0 = []"
| "spawn cfg rnd pos x y (Suc n) =
     Particle_constructor cfg (\<lambda>k. rnd (pos + k)) x y # spawn cfg rnd (pos + 7) x y n"

definition createParticles :: "real \<Rightarrow> real \<Rightarrow> real \<Rightarrow> world \<Rightarrow> js_error + world" where
  "createParticles x y count w =
     (let n = nat \<lceil>count\<rceil>
      in if n = 0 then Inr w
         else case particles w of
                None \<Rightarrow> Inl TypeError
              | Some ps \<Rightarrow>
                  Inr (w\<lparr>particles := Some (ps @ spawn (config w) (rand w) (randPos w) x y n),
                         randPos := randPos w + 7 * n\<rparr>))"

text \<open>
  The callback of \<open>particles.filter\<close> in \<open>animate\<close>, run over the array from the left:
  it updates the particle, and draws and keeps it when it is alive. The result is the
  new array and the bitmap.
\<close>

fun filter_frame ::
  "config \<Rightarrow> real \<Rightarrow> particle list \<Rightarrow> painted list \<Rightarrow> particle list \<times> painted list" where
  "filter_frame cfg h [] bm = ([], bm)"
| "filter_frame cfg h (p # ps) bm =
     (let p' = update cfg p
      in if isAlive h p'
         then (let (kept, bm') = filter_frame cfg h ps (draw p' bm) in (p' # kept, bm'))
         else filter_frame cfg h ps bm)"

definition animate :: "world \<Rightarrow> js_error + world" where
  "animate w =
     (if ctx w = None \<or> canvas w = None then Inr w
      else
        let w1 = clearRect w
        in case particles w1 of
             None \<Rightarrow> Inl TypeError
           | Some ps \<Rightarrow>
               (let (kept, bm) = filter_frame (config w1) (canvas_height w1) ps (bitmap w1);
                    w2 = w1\<lparr>particles := Some kept, bitmap := bm\<rparr>
                in if 0 < length kept
                   then (let (n, w3) = requestAnimationFrame w2 in Inr (w3\<lparr>animationId := Some n\<rparr>))
                   else Inr (w2\<lparr>isAnimating := Some False\<rparr>)))"

text \<open>
  The argument of \<open>triggerConfetti\<close>; \<open>None\<close> is a field the object does not have.
  \<open>a || b\<close> on numbers is \<open>b\<close> when \<open>a\<close> is missing or zero.
\<close>

record options =
  opt_x :: "real option"
  opt_y :: "real option"
  opt_count :: "real option"

definition no_options :: options where
  "no_options = \<lparr> opt_x = None, opt_y = None, opt_count = None \<rparr>"

definition js_or :: "real option \<Rightarrow> real \<Rightarrow> real" where
  "js_or a b = (case a of None \<Rightarrow> b | Some v \<Rightarrow> if v = 0 then b else v)"

definition stopConfetti :: "world \<Rightarrow> world" where
  "stopConfetti w =
     (let w1 = (case animationId w of
                  None \<Rightarrow> w
                | Some n \<Rightarrow>
                    if n \<noteq> 0 then (cancelAnimationFrame n w)\<lparr>animationId := None\<rparr> else w);
          w2 = w1\<lparr>particles := Some [], isAnimating := Some False\<rparr>
      in if ctx w2 \<noteq> None \<and> canvas w2 \<noteq> None then clearRect w2 else w2)"

text \<open>The callback that \<open>triggerConfetti\<close> hands to \<open>setTimeout\<close>.\<close>

definition auto_stop :: "world \<Rightarrow> world" where
  "auto_stop w = (if truthy_flag (isAnimating w) then stopConfetti w else w)"

definition triggerConfetti :: "options \<Rightarrow> world \<Rightarrow> js_error + world" where
  "triggerConfetti opts w =
     (if canvas w = None \<or> ctx w = None
      then Inr (console_write ''Confetti not initialized'' w)
      else if reducedMotion w
      then Inr (console_write ''Confetti disabled due to reduced motion preference'' w)
      else
        let x = js_or (opt_x opts) (canvas_width w / 2);
            y = js_or (opt_y opts) 40;
            count = js_or (opt_count opts) (particleCount (config w))
        in case createParticles x y count w of
             Inl e \<Rightarrow> Inl e
           | Inr w1 \<Rightarrow>
               (case (if \<not> truthy_flag (isAnimating w1)
                      then animate (w1\<lparr>isAnimating := Some True\<rparr>)
                      else Inr w1) of
                  Inl e \<Rightarrow> Inl e
                | Inr w2 \<Rightarrow> Inr (setTimeout (duration (config w2)) w2)))"

definition updateConfig :: "config_patch \<Rightarrow> world \<Rightarrow> world" where
  "updateConfig newConfig w = w\<lparr>config := Object_assign (config w) newConfig\<rparr>"

text \<open>
  The browser runs the pending timer number \<open>i\<close>: the clock has reached its due time,
  the timer leaves the list and its callback runs.
\<close>

definition timer_fires :: "nat \<Rightarrow> world \<Rightarrow> world" where
  "timer_fires i w =
     (if i < length (timers w)
      then auto_stop (w\<lparr>clock := max (clock w) (timers w ! i),
                        timers := take i (timers w) @ drop (Suc i) (timers w)\<rparr>)
      else w)"

text \<open>
  A page that has just loaded the module: no module variable is set, and the document
  has a canvas of the given size.
\<close>

definition loaded_page :: "real \<Rightarrow> real \<Rightarrow> bool \<Rightarrow> bool \<Rightarrow> world" where
  "loaded_page width height has_canvas reduced =
     \<lparr> config = CONFIG, canvas = None, ctx = None, particles = None, animationId = None,
       isAnimating = None, documentHasCanvas = has_canvas, context2dAvailable = True,
       canvas_width = 300, canvas_height = 150, bitmap = [],
       innerWidth = width, innerHeight = height, resizeListener = False,
       reducedMotion = reduced, frameRequests = [], frameCounter = 0, clock = 0,
       timers = [], console = [], rand = (\<lambda>k. 1 / 2), randPos = 0 \<rparr>"

text \<open>
  A particle at rest with full life, and the configuration after
  \<open>updateConfig({gravity: 0})\<close>: the inputs of the scenario that calls \<open>update\<close>
  repeatedly on one particle.
\<close>

definition resting_particle :: particle where
  "resting_particle =
     \<lparr> px = 400, py = 40, psize = 8, color = Some ''#d4a574'', shape = Some ''circle'',
       vx = 0, vy = 0, rotation = 0, rotationSpeed = 0, opacity = 1, life = 1 \<rparr>"

definition no_gravity :: config where
  "no_gravity = Object_assign CONFIG (no_patch\<lparr>new_gravity := Some 0\<rparr>)"

text \<open>
  The page of the scenario: a viewport of 800 by 600 and a successful \<open>initConfetti()\<close>;
  then \<open>triggerConfetti({x: 400, y: 40, count: 3})\<close>; then a second \<open>initConfetti()\<close> and
  the same burst again while the frame of the first burst is still pending; and the
  same burst again one second after the first, without a second initialisation.
\<close>

definition ready_page :: world where
  "ready_page = initConfetti (loaded_page 800 600 True False)"

definition burst :: options where
  "burst = \<lparr> opt_x = Some 400, opt_y = Some 40, opt_count = Some 3 \<rparr>"

definition after_trigger :: world where
  "after_trigger = projr (triggerConfetti burst ready_page)"

definition restarted :: world where
  "restarted = projr (triggerConfetti burst (initConfetti after_trigger))"

definition second_burst :: world where
  "second_burst = projr (triggerConfetti burst (after_trigger\<lparr>clock := 1000\<rparr>))"

text \<open>
  Further pages: the same page with the preference for reduced motion; a page without the
  canvas element; and the initialised page in the middle of an animation, with one
  particle at full life and one on its last hundredth.
\<close>

definition reduced_page :: world where
  "reduced_page = initConfetti (loaded_page 800 600 True True)"

definition bare_page :: world where
  "bare_page = loaded_page 800 600 False False"

definition mid_frame :: world where
  "mid_frame =
     ready_page\<lparr>particles := Some [resting_particle, resting_particle\<lparr>life := 1 / 100\<rparr>],
                isAnimating := Some True\<rparr>"

definition all_zero :: options where
  "all_zero = \<lparr> opt_x = Some 0, opt_y = Some 0, opt_count = Some 0 \<rparr>"

section \<open>Properties\<close>

subsection \<open>The scenario pages\<close>

lemmas run_defs =
  initConfetti_def loaded_page_def Let_def resizeCanvas_def triggerConfetti_def js_or_def
  createParticles_def truthy_flag_def animate_def clearRect_def Particle_constructor_def
  CONFIG_def js_index_def update_def isAlive_def draw_def paint_def requestAnimationFrame_def
  setTimeout_def ready_page_def burst_def console_write_def eval_nat_numeral

lemmas page_defs =
  run_defs after_trigger_def second_burst_def stopConfetti_def cancelAnimationFrame_def

lemma ready_page_fields:
  "config ready_page = CONFIG" "rand ready_page = (\<lambda>k. 1 / 2)" "particles ready_page = Some []"
  "canvas ready_page \<noteq> None" "ctx ready_page \<noteq> None" "\<not> reducedMotion ready_page"
  by (simp_all add: run_defs)

lemma after_trigger_fields:
  "canvas after_trigger \<noteq> None" "ctx after_trigger \<noteq> None" "\<not> reducedMotion after_trigger"
  "frameRequests after_trigger = [1]" "animationId after_trigger = Some 1"
  "isAnimating after_trigger = Some True" "timers after_trigger = [4000]"
  "clock after_trigger = 0" "config after_trigger = CONFIG"
  "map_option length (particles after_trigger) = Some 3"
  by (simp_all add: page_defs)

lemma second_burst_fields:
  "map_option length (particles second_burst) = Some 6"
  "isAnimating second_burst = Some True"
  by (simp_all add: page_defs)

subsection \<open>Spawning\<close>

lemma default_angle_sin:
  assumes "0 \<le> r" "r < 1"
  shows "sin (r * (max_v (angleRange CONFIG) - min_v (angleRange CONFIG))
              + min_v (angleRange CONFIG)) < 0"
proof -
  let ?a = "pi / 4 + r * (pi / 2)"
  have eq: "r * (max_v (angleRange CONFIG) - min_v (angleRange CONFIG))
              + min_v (angleRange CONFIG) = - ?a"
    by (simp add: CONFIG_def field_simps)
  have "0 < r * (pi / 2) + pi / 4"
    using assms by (intro add_nonneg_pos mult_nonneg_nonneg) simp_all
  then have lo: "0 < ?a" by linarith
  have "r * (pi / 2) < 1 * (pi / 2)"
    using assms by (intro mult_strict_right_mono) simp_all
  then have hi: "?a < pi" using pi_gt_zero by linarith
  have "0 < sin ?a" using lo hi by (rule sin_gt_zero)
  then have "sin (- ?a) < 0" by (simp only: sin_minus neg_less_0_iff_less)
  then show ?thesis by (simp only: eq)
qed

lemma default_velocity_neg:
  assumes "0 \<le> r" "r < 1"
  shows "r * (max_v (initialVelocityRange CONFIG) - min_v (initialVelocityRange CONFIG))
           + min_v (initialVelocityRange CONFIG) < 0"
  using assms by (simp add: CONFIG_def)

lemma default_vy_pos:
  assumes "0 \<le> rnd 3" "rnd 3 < 1" "0 \<le> rnd 4" "rnd 4 < 1"
  shows "0 < vy (Particle_constructor CONFIG rnd x y)"
  using default_angle_sin [OF assms(1,2)] default_velocity_neg [OF assms(3,4)]
  by (simp add: Particle_constructor_def Let_def mult_neg_neg)

lemma Particle_constructor_life: "life (Particle_constructor cfg rnd x y) = 1"
  by (simp add: Particle_constructor_def Let_def)

lemma spawn_length: "length (spawn cfg rnd pos x y n) = n"
  by (induction n arbitrary: pos) simp_all

lemma spawn_default_vy:
  assumes "\<forall>k. 0 \<le> rnd k \<and> rnd k < 1"
  shows "\<forall>p \<in> set (spawn CONFIG rnd pos x y n). 0 < vy p \<and> life p = 1"
proof (induction n arbitrary: pos)
  case 0
  show ?case by simp
next
  case (Suc n)
  have "0 < vy (Particle_constructor CONFIG (\<lambda>k. rnd (pos + k)) x y)"
    using assms by (intro default_vy_pos) simp_all
  then show ?case using Suc.IH [of "pos + 7"] by (simp add: Particle_constructor_life)
qed

text \<open>
  Claim C1, as amended. With the default configuration and every value of \<open>Math.random\<close>
  in \<open>[0, 1)\<close>, \<open>createParticles\<close> appends \<open>\<lceil>count\<rceil>\<close> particles, and each of them starts
  with \<open>life = 1\<close> and a vertical velocity \<open>vy > 0\<close>: the sine of an angle between
  \<open>-3\<pi>/4\<close> and \<open>-\<pi>/4\<close> is negative and so is the speed, hence their product points
  down the canvas, where \<open>y\<close> grows.
\<close>

theorem fresh_particles_move_down:
  assumes "config w = CONFIG" and "\<forall>k. 0 \<le> rand w k \<and> rand w k < 1"
    and "particles w = Some ps"
  shows "\<exists>new. createParticles x y count w
            = Inr (w\<lparr>particles := Some (ps @ new), randPos := randPos w + 7 * nat \<lceil>count\<rceil>\<rparr>)
          \<and> length new = nat \<lceil>count\<rceil>
          \<and> (\<forall>p \<in> set new. 0 < vy p \<and> life p = 1)"
proof -
  let ?new = "spawn CONFIG (rand w) (randPos w) x y (nat \<lceil>count\<rceil>)"
  have "createParticles x y count w
          = Inr (w\<lparr>particles := Some (ps @ ?new), randPos := randPos w + 7 * nat \<lceil>count\<rceil>\<rparr>)"
    using assms(1,3) by (simp add: createParticles_def Let_def)
  moreover have "length ?new = nat \<lceil>count\<rceil>" by (rule spawn_length)
  moreover have "\<forall>p \<in> set ?new. 0 < vy p \<and> life p = 1"
    using assms(2) by (rule spawn_default_vy)
  ultimately show ?thesis by blast
qed

theorem fresh_particles_move_down_witness:
  "\<exists>new. createParticles 400 40 3 ready_page
           = Inr (ready_page\<lparr>particles := Some ([] @ new),
                              randPos := randPos ready_page + 7 * nat \<lceil>3 :: real\<rceil>\<rparr>)
         \<and> length new = nat \<lceil>3 :: real\<rceil>
         \<and> (\<forall>p \<in> set new. 0 < vy p \<and> life p = 1)"
proof -
  have "\<forall>k. 0 \<le> rand ready_page k \<and> rand ready_page k < 1"
    by (simp add: ready_page_fields)
  with ready_page_fields(1) show ?thesis
    using ready_page_fields(3) by (rule fresh_particles_move_down)
qed

text \<open>
  The claim as it was stated, \<open>vy \<le> 0\<close> for every fresh particle, fails for the particle
  built from the random values \<open>1/2\<close>: its angle is \<open>-\<pi>/2\<close>, its speed \<open>-10\<close> and its
  \<open>vy\<close> is \<open>10\<close>.
\<close>

theorem fresh_particle_upward_counterexample:
  "\<not> vy (Particle_constructor CONFIG (\<lambda>k. 1 / 2) 400 40) \<le> 0"
  using default_vy_pos [of "\<lambda>k. 1 / 2" 400 40] by simp

subsection \<open>The physics step\<close>

lemma update_life: "life (update cfg p) = life p - 1 / 100"
  by (simp add: update_def Let_def)

lemma update_py: "py (update cfg p) = py p + (vy p + gravity cfg) * windResistance cfg"
  by (simp add: update_def Let_def)

lemma update_vy: "vy (update cfg p) = (vy p + gravity cfg) * windResistance cfg"
  by (simp add: update_def Let_def)

text \<open>
  Claim C2. \<open>update\<close> is the five stages in the order gravity, resistance, position,
  rotation, decay. So the new \<open>vy\<close> is \<open>(vy + gravity) * resistance\<close>, the position moves
  by the velocity that gravity and resistance have already changed, and afterwards
  \<open>opacity = max 0 life\<close>.
\<close>

theorem update_stages:
  "update cfg p =
     stage_decay (stage_rotation (stage_position (stage_resistance cfg (stage_gravity cfg p))))
   \<and> vx (update cfg p) = vx p * windResistance cfg
   \<and> vy (update cfg p) = (vy p + gravity cfg) * windResistance cfg
   \<and> px (update cfg p) = px p + vx p * windResistance cfg
   \<and> py (update cfg p) = py p + (vy p + gravity cfg) * windResistance cfg
   \<and> rotation (update cfg p) = rotation p + rotationSpeed p
   \<and> life (update cfg p) = life p - 1 / 100
   \<and> opacity (update cfg p) = max 0 (life (update cfg p))"
  by (simp add: update_def Let_def stage_decay_def stage_rotation_def stage_position_def
      stage_resistance_def stage_gravity_def)

subsection \<open>The lifetime of a particle\<close>

lemma update_n_life: "life (update_n cfg k p) = life p - real k / 100"
  by (induction k) (simp_all add: update_life field_simps)

lemma update_n_at_rest:
  "gravity cfg = 0 \<Longrightarrow> vy p = 0 \<Longrightarrow> vy (update_n cfg k p) = 0 \<and> py (update_n cfg k p) = py p"
  by (induction k) (simp_all add: update_py update_vy)

lemma no_gravity_gravity: "gravity no_gravity = 0"
  by (simp add: no_gravity_def Object_assign_def assign_field_def no_patch_def)

lemma pow2_pos: "0 < pow2 e"
  by (simp add: pow2_def)

lemma value_binary64_pos: "0 < value_binary64 f \<longleftrightarrow> 0 < fst f"
  using pow2_pos [of "snd f"] by (auto simp: value_binary64_def zero_less_mult_iff)

text \<open>
  The literal \<open>0.01\<close>: the binary64 value \<open>5764607523034235 / 2 ^ 59\<close> has 53 bits and lies
  within half a unit in the last place of one hundredth.
\<close>

lemma hundredth_nearest:
  "bitlen (fst hundredth) = 53 \<and> \<bar>value_binary64 hundredth - 1 / 100\<bar> < pow2 (- 60)"
  by (simp add: hundredth_def value_binary64_def pow2_def compute_bitlen)

lemma life_trace_eq: "life_trace n (life_binary64 j) = map life_binary64 [j..<j + n]"
proof (induction n arbitrary: j)
  case 0
  show ?case by simp
next
  case (Suc n)
  have "life_trace (Suc n) (life_binary64 j)
          = life_binary64 j # life_trace n (life_binary64 (Suc j))"
    by simp
  also have "\<dots> = life_binary64 j # map life_binary64 [Suc j..<Suc j + n]"
    by (simp only: Suc.IH)
  also have "\<dots> = map life_binary64 [j..<j + Suc n]"
    by (simp add: upt_rec)
  finally show ?case .
qed

lemmas binary64_eval =
  sub_binary64_def round_binary64_def round_half_even_def hundredth_def Let_def compute_bitlen

lemma life_trace_100: "list_all (\<lambda>l. 0 < fst l) (life_trace 100 (1, 0))"
  by (simp add: binary64_eval eval_nat_numeral)

lemma life_binary64_99: "life_binary64 99 = (5764607523033801, - 59)"
  by (simp add: binary64_eval eval_nat_numeral)

lemma life_binary64_100: "life_binary64 100 = (- 434, - 59)"
proof -
  have "life_binary64 100 = sub_binary64 (life_binary64 99) hundredth"
    by (simp add: eval_nat_numeral)
  then show ?thesis by (simp add: life_binary64_99 binary64_eval)
qed

lemma life_binary64_alive: "k < 100 \<Longrightarrow> 0 < fst (life_binary64 k)"
proof -
  assume k: "k < 100"
  have "list_all (\<lambda>l. 0 < fst l) (map life_binary64 [0..<0 + 100])"
    using life_trace_100 life_trace_eq [of 100 0] by simp
  then show ?thesis using k by (simp add: list_all_iff)
qed

text \<open>
  Claim C3, as amended. Each call of \<open>update\<close> lowers \<open>life\<close> by exactly \<open>0.01\<close>. A
  particle that starts with \<open>life = 1\<close> passes \<open>isAlive\<close> after \<open>k\<close> calls exactly when
  \<open>k < 100\<close> and its \<open>y\<close> is below the height of the canvas plus 50: it is alive after
  each of the first 99 calls, unless it has fallen past the threshold, and dead after
  call 100 wherever it is. With binary64 rounding the counter is positive after \<open>k\<close>
  calls exactly when \<open>k < 100\<close> too.
\<close>

theorem life_countdown:
  assumes "life p = 1"
  shows "life (update_n cfg (Suc k) p) = life (update_n cfg k p) - 1 / 100
       \<and> life (update_n cfg (Suc k) p) < life (update_n cfg k p)
       \<and> isAlive h (update_n cfg k p) = (k < 100 \<and> py (update_n cfg k p) < h + 50)
       \<and> (k \<le> 100 \<longrightarrow> (0 < value_binary64 (life_binary64 k)) = (k < 100))"
proof (intro conjI impI)
  show "life (update_n cfg (Suc k) p) = life (update_n cfg k p) - 1 / 100"
    by (simp add: update_life)
  show "life (update_n cfg (Suc k) p) < life (update_n cfg k p)"
    by (simp add: update_life)
  have "(0 < 1 - real k / 100) = (k < 100)" by (simp add: field_simps)
  then show "isAlive h (update_n cfg k p) = (k < 100 \<and> py (update_n cfg k p) < h + 50)"
    using assms by (simp add: isAlive_def update_n_life)
next
  assume "k \<le> 100"
  then consider "k < 100" | "k = 100" by linarith
  then show "(0 < value_binary64 (life_binary64 k)) = (k < 100)"
  proof cases
    case 1
    then show ?thesis by (simp add: value_binary64_pos life_binary64_alive)
  next
    case 2
    then show ?thesis by (simp add: value_binary64_pos life_binary64_100)
  qed
qed

theorem life_countdown_witness:
  "life resting_particle = 1
   \<and> isAlive 600 (update_n no_gravity 99 resting_particle)
   \<and> life (update_n no_gravity 100 resting_particle)
       < life (update_n no_gravity 99 resting_particle)
   \<and> 0 < value_binary64 (life_binary64 99)"
proof -
  have l: "life resting_particle = 1" by (simp add: resting_particle_def)
  have y: "py (update_n no_gravity 99 resting_particle) = 40"
    using update_n_at_rest [of no_gravity resting_particle 99]
    by (simp add: no_gravity_gravity resting_particle_def)
  show ?thesis
    using life_countdown [OF l, of no_gravity 99 600] l y by simp
qed

text \<open>
  The claim as it was stated has the particle alive for 100 calls and dead on call 101.
  The particle at rest at \<open>y = 40\<close> on a canvas of height 600 never comes near the
  threshold, and it is dead after call 100, with real numbers and with binary64
  rounding.
\<close>

theorem alive_100_steps_counterexample:
  "list_all (\<lambda>k. py (update_n no_gravity k resting_particle) < 600 + 50) [0..<101]
   \<and> \<not> isAlive 600 (update_n no_gravity 100 resting_particle)
   \<and> \<not> 0 < value_binary64 (life_binary64 100)"
proof -
  have y: "py (update_n no_gravity k resting_particle) = 40" for k
    using update_n_at_rest [of no_gravity resting_particle k]
    by (simp add: no_gravity_gravity resting_particle_def)
  have "life (update_n no_gravity 100 resting_particle) = 0"
    by (simp add: update_n_life resting_particle_def)
  then have "\<not> isAlive 600 (update_n no_gravity 100 resting_particle)"
    by (simp add: isAlive_def)
  moreover have "\<not> 0 < value_binary64 (life_binary64 100)"
    by (simp add: value_binary64_pos life_binary64_100)
  ultimately show ?thesis by (simp add: y list_all_iff)
qed

subsection \<open>Stopping\<close>

lemma stopConfetti_fields:
  "particles (stopConfetti w) = Some [] \<and> isAnimating (stopConfetti w) = Some False
   \<and> config (stopConfetti w) = config w \<and> canvas (stopConfetti w) = canvas w
   \<and> ctx (stopConfetti w) = ctx w \<and> timers (stopConfetti w) = timers w"
  by (simp add: stopConfetti_def Let_def clearRect_def cancelAnimationFrame_def
      split: option.splits)

lemma stopConfetti_idem: "stopConfetti (stopConfetti w) = stopConfetti w"
  by (auto simp: stopConfetti_def Let_def clearRect_def cancelAnimationFrame_def
      split: option.splits)

lemma stopConfetti_requests:
  "frameRequests (stopConfetti w) =
     (case animationId w of
        None \<Rightarrow> frameRequests w
      | Some n \<Rightarrow> if n \<noteq> 0 then removeAll n (frameRequests w) else frameRequests w)"
  by (simp add: stopConfetti_def Let_def clearRect_def cancelAnimationFrame_def
      split: option.splits)

text \<open>
  Claim C4, as amended. Whatever the state, \<open>stopConfetti\<close> leaves an empty array of
  particles and \<open>isAnimating = false\<close>, and a second call changes nothing more. It
  cancels the frame request whose handle is in \<open>animationId\<close>: no request is pending
  afterwards when every pending request is that one.
\<close>

theorem stopConfetti_resets:
  "particles (stopConfetti w) = Some []
   \<and> isAnimating (stopConfetti w) = Some False
   \<and> stopConfetti (stopConfetti w) = stopConfetti w
   \<and> (\<forall>n. animationId w = Some n \<and> n \<noteq> 0 \<longrightarrow>
         n \<notin> set (frameRequests (stopConfetti w)) \<and> animationId (stopConfetti w) = None)
   \<and> ((\<forall>m \<in> set (frameRequests w). m \<noteq> 0 \<and> animationId w = Some m) \<longrightarrow>
         frameRequests (stopConfetti w) = [])"
proof (intro conjI allI impI)
  show "particles (stopConfetti w) = Some []" by (simp add: stopConfetti_fields)
  show "isAnimating (stopConfetti w) = Some False" by (simp add: stopConfetti_fields)
  show "stopConfetti (stopConfetti w) = stopConfetti w" by (rule stopConfetti_idem)
next
  fix n assume "animationId w = Some n \<and> n \<noteq> 0"
  then show "n \<notin> set (frameRequests (stopConfetti w))"
    by (simp add: stopConfetti_requests)
next
  fix n assume "animationId w = Some n \<and> n \<noteq> 0"
  then show "animationId (stopConfetti w) = None"
    by (simp add: stopConfetti_def Let_def clearRect_def cancelAnimationFrame_def)
next
  assume a: "\<forall>m \<in> set (frameRequests w). m \<noteq> 0 \<and> animationId w = Some m"
  show "frameRequests (stopConfetti w) = []"
  proof (cases "frameRequests w")
    case Nil
    then show ?thesis by (simp add: stopConfetti_requests split: option.splits)
  next
    case (Cons m ms)
    with a have m: "m \<noteq> 0" "animationId w = Some m" by simp_all
    from a m have "\<forall>k \<in> set (frameRequests w). k = m" by auto
    then have "removeAll m (frameRequests w) = []"
      by (induction "frameRequests w") (auto simp: removeAll_filter_not_eq filter_empty_conv)
    then show ?thesis using m by (simp add: stopConfetti_requests)
  qed
qed

theorem stopConfetti_resets_witness:
  "frameRequests after_trigger = [1] \<and> animationId after_trigger = Some 1
   \<and> particles (stopConfetti after_trigger) = Some []
   \<and> isAnimating (stopConfetti after_trigger) = Some False
   \<and> frameRequests (stopConfetti after_trigger) = []
   \<and> animationId (stopConfetti after_trigger) = None
   \<and> stopConfetti (stopConfetti after_trigger) = stopConfetti after_trigger"
  using stopConfetti_resets [of after_trigger] by (simp add: after_trigger_fields)

text \<open>
  The claim as it was stated has no frame request pending after \<open>stopConfetti\<close> in
  any state. After \<open>initConfetti\<close>, a burst, a second \<open>initConfetti\<close> and a second burst,
  two requests are pending and \<open>animationId\<close> holds the second: \<open>stopConfetti\<close> cancels
  that one and the first stays pending.
\<close>

theorem stray_frame_counterexample:
  "triggerConfetti burst ready_page = Inr after_trigger
   \<and> triggerConfetti burst (initConfetti after_trigger) = Inr restarted
   \<and> frameRequests restarted = [1, 2]
   \<and> frameRequests (stopConfetti restarted) = [1]"
  by (simp add: page_defs restarted_def)

subsection \<open>The frame loop\<close>

lemma filter_frame_eq:
  "filter_frame cfg h ps bm =
     (filter (isAlive h) (map (update cfg) ps),
      bm @ map paint (filter (isAlive h) (map (update cfg) ps)))"
  by (induction ps arbitrary: bm) (simp_all add: Let_def draw_def)

lemma animate_ready:
  assumes "ctx w \<noteq> None" "canvas w \<noteq> None" "particles w = Some ps"
  shows "animate w =
     Inr (let kept = filter (isAlive (canvas_height w)) (map (update (config w)) ps)
          in if kept = []
             then w\<lparr>particles := Some [], isAnimating := Some False, bitmap := []\<rparr>
             else w\<lparr>particles := Some kept, animationId := Some (Suc (frameCounter w)),
                    bitmap := map paint kept,
                    frameRequests := frameRequests w @ [Suc (frameCounter w)],
                    frameCounter := Suc (frameCounter w)\<rparr>)"
  using assms
  by (auto simp: animate_def clearRect_def filter_frame_eq requestAnimationFrame_def Let_def)

text \<open>
  Claim C5. On an initialised engine one call of \<open>animate\<close> returns, and afterwards
  the array holds exactly the updated particles that pass \<open>isAlive\<close>, in their order,
  and the canvas shows exactly these. When none is left, \<open>isAnimating\<close> is false and no
  frame is requested; otherwise one frame is requested and its handle is kept.
\<close>

theorem animate_frame:
  assumes "ctx w \<noteq> None" and "canvas w \<noteq> None" and "particles w = Some ps"
  shows "\<exists>w'. animate w = Inr w'
           \<and> particles w' = Some (filter (isAlive (canvas_height w)) (map (update (config w)) ps))
           \<and> bitmap w' = map paint (filter (isAlive (canvas_height w)) (map (update (config w)) ps))
           \<and> (if filter (isAlive (canvas_height w)) (map (update (config w)) ps) = []
               then isAnimating w' = Some False \<and> frameRequests w' = frameRequests w
                    \<and> animationId w' = animationId w
               else isAnimating w' = isAnimating w
                    \<and> frameRequests w' = frameRequests w @ [Suc (frameCounter w)]
                    \<and> animationId w' = Some (Suc (frameCounter w)))"
  by (simp add: animate_ready [OF assms] Let_def)

theorem animate_frame_witness:
  "\<exists>w'. animate mid_frame = Inr w'
        \<and> particles w' = Some [update CONFIG resting_particle]
        \<and> bitmap w' = [paint (update CONFIG resting_particle)]
        \<and> isAnimating w' = Some True
        \<and> frameRequests w' = [1]"
proof -
  have h: "ctx mid_frame \<noteq> None" "canvas mid_frame \<noteq> None"
    "particles mid_frame = Some [resting_particle, resting_particle\<lparr>life := 1 / 100\<rparr>]"
    by (simp_all add: page_defs mid_frame_def resting_particle_def)
  have k: "filter (isAlive (canvas_height mid_frame))
             (map (update (config mid_frame)) [resting_particle, resting_particle\<lparr>life := 1 / 100\<rparr>])
           = [update CONFIG resting_particle]"
    by (simp add: page_defs mid_frame_def resting_particle_def)
  have f: "isAnimating mid_frame = Some True" "frameRequests mid_frame = []"
    "frameCounter mid_frame = 0"
    by (simp_all add: page_defs mid_frame_def resting_particle_def)
  show ?thesis using animate_frame [OF h, unfolded k] by (auto simp: f)
qed

subsection \<open>Triggering a burst\<close>

text \<open>
  Claim C6. On an initialised engine, while the browser reports the preference for
  reduced motion, \<open>triggerConfetti\<close> only writes a line to the console: particles,
  flag, configuration, canvas, frame requests and timers are as before. The preference
  is read from the browser at the call; the module keeps no copy of it.
\<close>

theorem reduced_motion_no_op:
  assumes "canvas w \<noteq> None" and "ctx w \<noteq> None" and "reducedMotion w"
  shows "\<exists>w'. triggerConfetti opts w = Inr w'
           \<and> w' = w\<lparr>console := console w @ [''Confetti disabled due to reduced motion preference'']\<rparr>
           \<and> particles w' = particles w \<and> isAnimating w' = isAnimating w
           \<and> config w' = config w \<and> bitmap w' = bitmap w
           \<and> canvas_width w' = canvas_width w \<and> canvas_height w' = canvas_height w
           \<and> frameRequests w' = frameRequests w \<and> timers w' = timers w
           \<and> randPos w' = randPos w"
  using assms by (auto simp: triggerConfetti_def console_write_def)

theorem reduced_motion_no_op_witness:
  "particles reduced_page = Some [] \<and> isAnimating reduced_page = Some False
   \<and> (\<exists>w'. triggerConfetti burst reduced_page = Inr w'
         \<and> particles w' = Some [] \<and> isAnimating w' = Some False
         \<and> config w' = CONFIG \<and> bitmap w' = [] \<and> timers w' = [] \<and> frameRequests w' = [])"
proof -
  have h: "canvas reduced_page \<noteq> None" "ctx reduced_page \<noteq> None" "reducedMotion reduced_page"
    by (simp_all add: page_defs reduced_page_def)
  have f: "particles reduced_page = Some []" "isAnimating reduced_page = Some False"
    "config reduced_page = CONFIG" "bitmap reduced_page = []" "timers reduced_page = []"
    "frameRequests reduced_page = []"
    by (simp_all add: page_defs reduced_page_def)
  from reduced_motion_no_op [OF h, of burst] obtain w' where
    "triggerConfetti burst reduced_page = Inr w'" "particles w' = particles reduced_page"
    "isAnimating w' = isAnimating reduced_page" "config w' = config reduced_page"
    "bitmap w' = bitmap reduced_page" "timers w' = timers reduced_page"
    "frameRequests w' = frameRequests reduced_page"
    by blast
  then show ?thesis by (simp add: f)
qed

lemma animate_keeps:
  assumes "ctx w \<noteq> None" and "canvas w \<noteq> None" and "particles w = Some ps"
  shows "\<exists>w'. animate w = Inr w' \<and> timers w' = timers w \<and> clock w' = clock w
           \<and> config w' = config w"
  by (simp add: animate_ready [OF assms] Let_def)

lemma trigger_ready:
  assumes "canvas w \<noteq> None" and "ctx w \<noteq> None" and "\<not> reducedMotion w"
    and "particles w = Some ps"
  shows "\<exists>w1. triggerConfetti opts w = Inr (setTimeout (duration (config w)) w1)
            \<and> timers w1 = timers w \<and> clock w1 = clock w"
proof -
  let ?x = "js_or (opt_x opts) (canvas_width w / 2)"
  let ?y = "js_or (opt_y opts) 40"
  let ?n = "nat \<lceil>js_or (opt_count opts) (particleCount (config w))\<rceil>"
  let ?w1 = "w\<lparr>particles := Some (ps @ spawn (config w) (rand w) (randPos w) ?x ?y ?n),
               randPos := randPos w + 7 * ?n\<rparr>"
  have c: "createParticles ?x ?y (js_or (opt_count opts) (particleCount (config w))) w = Inr ?w1"
    using assms(4) by (simp add: createParticles_def Let_def)
  show ?thesis
  proof (cases "truthy_flag (isAnimating w)")
    case True
    then have "triggerConfetti opts w = Inr (setTimeout (duration (config w)) ?w1)"
      using assms c by (auto simp: triggerConfetti_def Let_def)
    then show ?thesis by auto
  next
    case False
    let ?w2 = "?w1\<lparr>isAnimating := Some True\<rparr>"
    have "ctx ?w2 \<noteq> None" "canvas ?w2 \<noteq> None"
      "particles ?w2 = Some (ps @ spawn (config w) (rand w) (randPos w) ?x ?y ?n)"
      using assms by simp_all
    from animate_keeps [OF this]
    obtain w3 where a: "animate ?w2 = Inr w3" and f: "timers w3 = timers w"
      "clock w3 = clock w" "config w3 = config w"
      by auto
    have "triggerConfetti opts w = Inr (setTimeout (duration (config w)) w3)"
      using assms c False a f by (auto simp: triggerConfetti_def Let_def)
    then show ?thesis using f by auto
  qed
qed

text \<open>
  Claim C8. A call of \<open>triggerConfetti\<close> that passes its two guards returns and has
  added one timer, due \<open>CONFIG.duration\<close> after the time of the call. When a timer
  fires it leaves the list; if the engine is animating it runs \<open>stopConfetti\<close>, which
  empties the whole array, whichever call spawned the particles, and clears the flag;
  if the engine is not animating it changes nothing else.
\<close>

theorem auto_stop_timer:
  "(canvas w \<noteq> None \<and> ctx w \<noteq> None \<and> \<not> reducedMotion w \<and> particles w = Some ps \<longrightarrow>
      (\<exists>w'. triggerConfetti opts w = Inr w'
         \<and> timers w' = timers w @ [clock w + duration (config w)]))
   \<and> (i < length (timers v) \<longrightarrow>
        timers (timer_fires i v) = take i (timers v) @ drop (Suc i) (timers v)
        \<and> (truthy_flag (isAnimating v) \<longrightarrow>
             particles (timer_fires i v) = Some [] \<and> isAnimating (timer_fires i v) = Some False)
        \<and> (\<not> truthy_flag (isAnimating v) \<longrightarrow>
             particles (timer_fires i v) = particles v
             \<and> isAnimating (timer_fires i v) = isAnimating v
             \<and> bitmap (timer_fires i v) = bitmap v
             \<and> frameRequests (timer_fires i v) = frameRequests v
             \<and> animationId (timer_fires i v) = animationId v))"
proof (intro conjI impI)
  assume "canvas w \<noteq> None \<and> ctx w \<noteq> None \<and> \<not> reducedMotion w \<and> particles w = Some ps"
  then obtain w1 where "triggerConfetti opts w = Inr (setTimeout (duration (config w)) w1)"
    "timers w1 = timers w" "clock w1 = clock w"
    using trigger_ready [of w ps opts] by auto
  then show "\<exists>w'. triggerConfetti opts w = Inr w'
               \<and> timers w' = timers w @ [clock w + duration (config w)]"
    by (simp add: setTimeout_def)
qed (simp_all add: timer_fires_def auto_stop_def stopConfetti_fields)

theorem auto_stop_timer_witness:
  "timers second_burst = [4000, 5000]
   \<and> map_option length (particles second_burst) = Some 6
   \<and> particles (timer_fires 0 second_burst) = Some []
   \<and> isAnimating (timer_fires 0 second_burst) = Some False
   \<and> timers (timer_fires 0 second_burst) = [5000]"
proof -
  let ?w = "after_trigger\<lparr>clock := 1000\<rparr>"
  obtain ps where ps: "particles ?w = Some ps"
    using after_trigger_fields(10) by (cases "particles after_trigger") simp_all
  have h: "canvas ?w \<noteq> None \<and> ctx ?w \<noteq> None \<and> \<not> reducedMotion ?w \<and> particles ?w = Some ps"
    using ps by (simp add: after_trigger_fields)
  note T = auto_stop_timer [of ?w ps burst 0 second_burst]
  from T h obtain w' where w': "triggerConfetti burst ?w = Inr w'"
    "timers w' = timers ?w @ [clock ?w + duration (config ?w)]"
    by blast
  then have "second_burst = w'" by (simp add: second_burst_def)
  with w' have t: "timers second_burst = [4000, 5000]"
    by (simp add: after_trigger_fields CONFIG_def)
  have a: "truthy_flag (isAnimating second_burst)"
    by (simp add: second_burst_fields truthy_flag_def)
  from T t a have "particles (timer_fires 0 second_burst) = Some []
      \<and> isAnimating (timer_fires 0 second_burst) = Some False
      \<and> timers (timer_fires 0 second_burst) = [5000]"
    by simp
  with t show ?thesis by (simp add: second_burst_fields)
qed

text \<open>
  Claim C10. An option that is \<open>0\<close> gives the same result as the option left out.
  With all three options \<open>0\<close> on an animating engine, the burst is spawned at the
  middle of the canvas width and at \<open>y = 40\<close>, and it has \<open>\<lceil>CONFIG.particleCount\<rceil>\<close>
  particles.
\<close>

theorem zero_option_is_absent:
  "triggerConfetti (opts\<lparr>opt_x := Some 0\<rparr>) w = triggerConfetti (opts\<lparr>opt_x := None\<rparr>) w
   \<and> triggerConfetti (opts\<lparr>opt_y := Some 0\<rparr>) w = triggerConfetti (opts\<lparr>opt_y := None\<rparr>) w
   \<and> triggerConfetti (opts\<lparr>opt_count := Some 0\<rparr>) w
       = triggerConfetti (opts\<lparr>opt_count := None\<rparr>) w
   \<and> triggerConfetti all_zero w = triggerConfetti no_options w
   \<and> (canvas w \<noteq> None \<and> ctx w \<noteq> None \<and> \<not> reducedMotion w \<and> particles w = Some ps
        \<and> truthy_flag (isAnimating w) \<longrightarrow>
      triggerConfetti all_zero w
        = Inr (setTimeout (duration (config w))
            (w\<lparr>particles :=
                  Some (ps @ spawn (config w) (rand w) (randPos w) (canvas_width w / 2) 40
                               (nat \<lceil>particleCount (config w)\<rceil>)),
                randPos := randPos w + 7 * nat \<lceil>particleCount (config w)\<rceil>\<rparr>)))"
proof (intro conjI impI)
  assume a: "canvas w \<noteq> None \<and> ctx w \<noteq> None \<and> \<not> reducedMotion w \<and> particles w = Some ps
        \<and> truthy_flag (isAnimating w)"
  then have p: "particles w = Some ps" by simp
  have e: "w\<lparr>particles := Some ps\<rparr> = w" unfolding p [symmetric] by simp
  show "triggerConfetti all_zero w
        = Inr (setTimeout (duration (config w))
            (w\<lparr>particles :=
                  Some (ps @ spawn (config w) (rand w) (randPos w) (canvas_width w / 2) 40
                               (nat \<lceil>particleCount (config w)\<rceil>)),
                randPos := randPos w + 7 * nat \<lceil>particleCount (config w)\<rceil>\<rparr>))"
    using a
    by (auto simp: triggerConfetti_def js_or_def createParticles_def Let_def all_zero_def p e)
qed (simp_all add: triggerConfetti_def js_or_def all_zero_def no_options_def)

theorem zero_option_is_absent_witness:
  "triggerConfetti all_zero after_trigger = triggerConfetti no_options after_trigger
   \<and> map_option length (particles (projr (triggerConfetti all_zero after_trigger))) = Some 153
   \<and> map_option length (particles (projr (triggerConfetti burst after_trigger))) = Some 6"
proof -
  obtain ps where ps: "particles after_trigger = Some ps" "length ps = 3"
    using after_trigger_fields(10) by (cases "particles after_trigger") simp_all
  have h: "canvas after_trigger \<noteq> None \<and> ctx after_trigger \<noteq> None
      \<and> \<not> reducedMotion after_trigger \<and> particles after_trigger = Some ps
      \<and> truthy_flag (isAnimating after_trigger)"
    using ps by (simp add: after_trigger_fields truthy_flag_def)
  have b: "map_option length (particles (projr (triggerConfetti burst after_trigger))) = Some 6"
    using second_burst_fields(1) by (simp add: page_defs)
  note T = zero_option_is_absent [of no_options after_trigger ps]
  from T have e: "triggerConfetti all_zero after_trigger = triggerConfetti no_options after_trigger"
    by blast
  from T h have r: "triggerConfetti all_zero after_trigger
      = Inr (setTimeout (duration (config after_trigger))
          (after_trigger\<lparr>particles :=
              Some (ps @ spawn (config after_trigger) (rand after_trigger)
                           (randPos after_trigger) (canvas_width after_trigger / 2) 40
                           (nat \<lceil>particleCount (config after_trigger)\<rceil>)),
            randPos := randPos after_trigger + 7 * nat \<lceil>particleCount (config after_trigger)\<rceil>\<rparr>))"
    by blast
  have "map_option length (particles (projr (triggerConfetti all_zero after_trigger)))
      = Some 153"
    unfolding r by (simp add: setTimeout_def ps spawn_length after_trigger_fields CONFIG_def)
  with e b show ?thesis by simp
qed

subsection \<open>Configuration updates\<close>

text \<open>
  Claim C9. \<open>updateConfig\<close> changes the configuration only: a field the argument
  names takes the argument's value, a field it does not name keeps its own, and the
  particles with all their attributes and the flag are as before. The next physics step
  reads the new gravity and resistance.
\<close>

theorem updateConfig_merge:
  "updateConfig n w = w\<lparr>config := config (updateConfig n w)\<rparr>
   \<and> particleCount (config (updateConfig n w))
       = (case new_particleCount n of None \<Rightarrow> particleCount (config w) | Some v \<Rightarrow> v)
   \<and> duration (config (updateConfig n w))
       = (case new_duration n of None \<Rightarrow> duration (config w) | Some v \<Rightarrow> v)
   \<and> colors (config (updateConfig n w))
       = (case new_colors n of None \<Rightarrow> colors (config w) | Some v \<Rightarrow> v)
   \<and> shapes (config (updateConfig n w))
       = (case new_shapes n of None \<Rightarrow> shapes (config w) | Some v \<Rightarrow> v)
   \<and> gravity (config (updateConfig n w))
       = (case new_gravity n of None \<Rightarrow> gravity (config w) | Some v \<Rightarrow> v)
   \<and> windResistance (config (updateConfig n w))
       = (case new_windResistance n of None \<Rightarrow> windResistance (config w) | Some v \<Rightarrow> v)
   \<and> initialVelocityRange (config (updateConfig n w))
       = (case new_initialVelocityRange n of
            None \<Rightarrow> initialVelocityRange (config w) | Some v \<Rightarrow> v)
   \<and> angleRange (config (updateConfig n w))
       = (case new_angleRange n of None \<Rightarrow> angleRange (config w) | Some v \<Rightarrow> v)
   \<and> particles (updateConfig n w) = particles w
   \<and> isAnimating (updateConfig n w) = isAnimating w
   \<and> vy (update (config (updateConfig n w)) p)
       = (vy p + gravity (config (updateConfig n w))) * windResistance (config (updateConfig n w))"
  by (simp add: updateConfig_def Object_assign_def assign_field_def update_vy)

subsection \<open>A missing surface\<close>

text \<open>
  Claim C7, as amended. When \<open>initConfetti\<close> finds no canvas it sets \<open>canvas\<close> to
  \<open>null\<close>, writes a warning and changes nothing else. While \<open>canvas\<close> is unset,
  \<open>triggerConfetti\<close> returns without an exception and only writes a warning;
  \<open>stopConfetti\<close> still empties the array and clears the flag but leaves the canvas
  alone; \<open>updateConfig\<close> still merges its argument into the configuration.
\<close>

theorem missing_surface:
  assumes "canvas w = None"
  shows "triggerConfetti opts w = Inr (w\<lparr>console := console w @ [''Confetti not initialized'']\<rparr>)
       \<and> (\<not> documentHasCanvas w \<longrightarrow>
            initConfetti w = w\<lparr>console := console w @ [''Confetti canvas not found'']\<rparr>)
       \<and> particles (stopConfetti w) = Some [] \<and> isAnimating (stopConfetti w) = Some False
       \<and> canvas (stopConfetti w) = None \<and> ctx (stopConfetti w) = ctx w
       \<and> bitmap (stopConfetti w) = bitmap w \<and> config (stopConfetti w) = config w
       \<and> console (stopConfetti w) = console w
       \<and> updateConfig n w = w\<lparr>config := Object_assign (config w) n\<rparr>
       \<and> (\<not> documentHasCanvas v \<longrightarrow>
            initConfetti v
              = v\<lparr>canvas := None, console := console v @ [''Confetti canvas not found'']\<rparr>)"
  using assms
  by (auto simp: triggerConfetti_def initConfetti_def console_write_def stopConfetti_def
      Let_def cancelAnimationFrame_def updateConfig_def split: option.splits)

theorem missing_surface_witness:
  "canvas bare_page = None \<and> \<not> documentHasCanvas bare_page
   \<and> triggerConfetti burst bare_page = Inr (bare_page\<lparr>console := [''Confetti not initialized'']\<rparr>)
   \<and> initConfetti bare_page = bare_page\<lparr>console := [''Confetti canvas not found'']\<rparr>
   \<and> particles (stopConfetti bare_page) = Some []
   \<and> bitmap (stopConfetti bare_page) = bitmap bare_page
   \<and> updateConfig no_patch bare_page = bare_page\<lparr>config := Object_assign CONFIG no_patch\<rparr>"
proof -
  have h: "canvas bare_page = None" by (simp add: page_defs bare_page_def)
  have f: "\<not> documentHasCanvas bare_page" "console bare_page = []" "config bare_page = CONFIG"
    by (simp_all add: page_defs bare_page_def)
  show ?thesis
    using missing_surface [OF h, of burst no_patch bare_page] h f by simp
qed

text \<open>
  The claim as it was stated makes every operation a no-op on all of the engine state
  once the surface is missing. On the page without a canvas, after \<open>initConfetti\<close>,
  \<open>updateConfig({gravity: 0})\<close> changes the configuration and \<open>stopConfetti\<close> sets the
  array of particles, which was \<open>undefined\<close>, to the empty array.
\<close>

theorem missing_surface_counterexample:
  "canvas (initConfetti bare_page) = None
   \<and> config (updateConfig (no_patch\<lparr>new_gravity := Some 0\<rparr>) (initConfetti bare_page))
       \<noteq> config (initConfetti bare_page)
   \<and> particles (stopConfetti (initConfetti bare_page)) \<noteq> particles (initConfetti bare_page)"
  by (simp add: page_defs bare_page_def updateConfig_def Object_assign_def assign_field_def
      no_patch_def)

end
